theory Spec2Isabelle
  imports Main
begin

section \<open>The sharing service: share links, permissions and the shared view\<close>

text \<open>
  The model follows the class \<open>SharingService\<close>. The object \<open>this.shareLinks\<close> is a map
  from share ids to share-link records. A lookup \<open>this.shareLinks[shareId]\<close> that finds
  no entry of the object's own goes on to \<open>Object.prototype\<close>, and so does a lookup in
  the parsed user directory; what such a lookup finds is part of the state. Every
  method that mutates takes the state and returns the new one next to its result. The clock (\<open>new Date()\<close>),
  the random source (\<open>Math.random()\<close>), the page origin and the user directory kept by
  the authentication service in local storage are read-only surroundings of the
  service and are passed as arguments.

  A timestamp is the time value (milliseconds since the epoch) that the ISO string of
  the source denotes. The access counter is a natural number: counts stay in the range
  where the increment of a JavaScript number is exact.
\<close>

subsection \<open>Data\<close>

type_synonym timestamp = int

record permission_record =
  canViewEvents :: bool
  canViewAvailability :: bool
  canViewStatus :: bool
  canViewDetails :: bool

text \<open>
  A partial permission record: each key is either absent (\<open>None\<close>) or carries a boolean.
  The argument of \<open>generateShareLink\<close> may carry \<open>expiresAt\<close> as well.
\<close>

record partial_permissions =
  given_canViewEvents :: "bool option"
  given_canViewAvailability :: "bool option"
  given_canViewStatus :: "bool option"
  given_canViewDetails :: "bool option"

record share_request = partial_permissions +
  given_expiresAt :: "timestamp option"

record share_link =
  id_link :: string
  userId :: string
  link :: string
  permissions :: permission_record
  createdAt :: timestamp
  expiresAt :: "timestamp option"
  isActive :: bool
  accessCount :: nat
  lastAccessed :: "timestamp option"

type_synonym share_links = "string \<rightharpoonup> share_link"

text \<open>
  \<open>this.shareLinks\<close> and the parsed user directory are plain objects. For a key that is
  not an entry of the object's own, \<open>obj[key]\<close> finds what \<open>Object.prototype\<close> holds
  under that name: a function for each name of the standard methods,
  \<open>Object.prototype\<close> itself for \<open>__proto__\<close>, and what the service has stored on
  \<open>Object.prototype\<close> before. The service assigns two properties on an object it has
  looked up, \<open>isActive\<close> (always \<open>false\<close>) and \<open>permissions\<close>; for each name under
  which a lookup finds an inherited object the state records which of the two the
  service has assigned on that object. No other property of such an object is read by
  the service with a defined result: its \<open>isActive\<close> is \<open>false\<close> or undefined, and it
  has none of the fields of a user. The value \<open>false\<close> that \<open>revokeShareLink\<close> may
  leave on \<open>Object.prototype\<close> under the name \<open>isActive\<close> is no object: wherever the
  service tests what a lookup found, it counts as nothing found.
\<close>

record inherited_object =
  isActive_assigned :: bool
  permissions_assigned :: bool

type_synonym inherited_objects = "string \<rightharpoonup> inherited_object"

text \<open>
  The service state: the in-memory object \<open>this.shareLinks\<close>, the copy that
  \<open>saveShareLinks\<close> writes to local storage under \<open>checkmate_share_links\<close>, and the
  objects that a lookup finds through the prototype chain.
\<close>

record sharing_service =
  shareLinks :: share_links
  storage :: share_links
  inherited :: inherited_objects

text \<open>What \<open>this.shareLinks[shareId]\<close> finds: a share link of the registry or an inherited object.\<close>

datatype found_link = ShareLink share_link | InheritedLink inherited_object

text \<open>
  A user of the directory, with the fields the service reads. \<open>events\<close>,
  \<open>availability\<close> and \<open>currentStatus\<close> may be missing from a user object; an object
  such as \<open>availability\<close> is a map from its keys.
\<close>

record ('e, 'v, 's) user_data =
  fullName :: string
  email :: string
  events :: "'e list option"
  availability :: "(string \<rightharpoonup> 'v) option"
  currentStatus :: "'s option"

type_synonym ('e, 'v, 's) user_directory = "string \<rightharpoonup> ('e, 'v, 's) user_data"

text \<open>What \<open>users[userId]\<close> finds: a user of the directory or an inherited object.\<close>

datatype ('e, 'v, 's) found_user =
    DirectoryUser "('e, 'v, 's) user_data"
  | InheritedUser inherited_object

text \<open>The object returned by \<open>getSharedScheduleData\<close>; \<open>null\<close> is \<open>None\<close>.\<close>

record shared_user =
  name :: "string option"
  shared_email :: "string option"

record share_info =
  info_createdAt :: timestamp
  info_accessCount :: nat
  info_permissions :: permission_record

record ('e, 'v, 's) shared_data =
  user :: shared_user
  shared_events :: "'e list"
  shared_availability :: "string \<rightharpoonup> 'v"
  shared_currentStatus :: "'s option"
  shareInfo :: share_info

subsection \<open>Persistence\<close>

definition saveShareLinks :: "sharing_service \<Rightarrow> sharing_service" where
  "saveShareLinks s = s\<lparr>storage := shareLinks s\<rparr>"

definition untouched_object :: inherited_object where
  "untouched_object = \<lparr>isActive_assigned = False, permissions_assigned = False\<rparr>"

definition object_prototype :: inherited_objects where
  \<comment> \<open>the names every plain object inherits when the page is loaded\<close>
  "object_prototype = map_of
     [(''constructor'', untouched_object),
      (''toString'', untouched_object),
      (''toLocaleString'', untouched_object),
      (''valueOf'', untouched_object),
      (''hasOwnProperty'', untouched_object),
      (''isPrototypeOf'', untouched_object),
      (''propertyIsEnumerable'', untouched_object),
      (''__defineGetter__'', untouched_object),
      (''__defineSetter__'', untouched_object),
      (''__lookupGetter__'', untouched_object),
      (''__lookupSetter__'', untouched_object),
      (''__proto__'', untouched_object)]"

definition new_service :: sharing_service where
  \<comment> \<open>the constructor on an empty local storage: \<open>loadShareLinks\<close> returns \<open>{}\<close>\<close>
  "new_service = \<lparr>shareLinks = Map.empty, storage = Map.empty, inherited = object_prototype\<rparr>"

subsection \<open>Share ids\<close>

definition chars :: string where
  "chars = ''ABCDEFGHIJKLMNOPQRSTUVWXYZabcdefghijklmnopqrstuvwxyz0123456789''"

definition charAt :: "string \<Rightarrow> nat \<Rightarrow> string" where
  \<comment> \<open>\<open>String.prototype.charAt\<close>: the empty string out of range\<close>
  "charAt str i = (if i < length str then [str ! i] else [])"

text \<open>
  \<open>rnd i\<close> is the value of \<open>Math.floor(Math.random() * chars.length)\<close> in the \<open>i\<close>-th
  round of the loop.
\<close>

definition generateShareId :: "(nat \<Rightarrow> nat) \<Rightarrow> string" where
  "generateShareId rnd = fold (\<lambda>i result. result @ charAt chars (rnd i)) [0..<16] []"

subsection \<open>Operations\<close>

definition generateShareLink ::
  "string \<Rightarrow> (nat \<Rightarrow> nat) \<Rightarrow> timestamp \<Rightarrow> string \<Rightarrow> share_request \<Rightarrow> sharing_service
     \<Rightarrow> share_link \<times> sharing_service" where
  "generateShareLink origin rnd now uid perms s =
     (let shareId = generateShareId rnd;
          shareLink = origin @ ''?shared='' @ shareId;
          shareData = \<lparr>
            id_link = shareId,
            userId = uid,
            link = shareLink,
            permissions = \<lparr>
              canViewEvents = (given_canViewEvents perms \<noteq> Some False),
              canViewAvailability = (given_canViewAvailability perms \<noteq> Some False),
              canViewStatus = (given_canViewStatus perms \<noteq> Some False),
              canViewDetails = (case given_canViewDetails perms of Some b \<Rightarrow> b | None \<Rightarrow> False)\<rparr>,
            createdAt = now,
            expiresAt = given_expiresAt perms,
            isActive = True,
            accessCount = 0,
            lastAccessed = None\<rparr>
      in (shareData, saveShareLinks (s\<lparr>shareLinks := (shareLinks s)(shareId \<mapsto> shareData)\<rparr>)))"

definition getShareLink :: "string \<Rightarrow> sharing_service \<Rightarrow> found_link option" where
  "getShareLink shareId s =
     (case shareLinks s shareId of
        Some l \<Rightarrow> Some (ShareLink l)
      | None \<Rightarrow> map_option InheritedLink (inherited s shareId))"

definition getUserShareLinks :: "string \<Rightarrow> sharing_service \<Rightarrow> share_link set" where
  \<comment> \<open>the order of \<open>Object.values\<close> is left out\<close>
  "getUserShareLinks uid s = {l \<in> ran (shareLinks s). userId l = uid}"

definition revokeShareLink :: "string \<Rightarrow> sharing_service \<Rightarrow> bool \<times> sharing_service" where
  "revokeShareLink shareId s =
     (case shareLinks s shareId of
        Some l \<Rightarrow>
          (True, saveShareLinks (s\<lparr>shareLinks := (shareLinks s)(shareId \<mapsto> l\<lparr>isActive := False\<rparr>)\<rparr>))
      | None \<Rightarrow>
          (case inherited s shareId of
             Some obj \<Rightarrow>
               (True, saveShareLinks (s\<lparr>inherited :=
                  (inherited s)(shareId \<mapsto> obj\<lparr>isActive_assigned := True\<rparr>)\<rparr>))
           | None \<Rightarrow> (False, s)))"

definition spread_permissions :: "permission_record \<Rightarrow> partial_permissions \<Rightarrow> permission_record" where
  \<comment> \<open>\<open>{ ...old, ...given }\<close>: a key of \<open>given\<close> wins over the same key of \<open>old\<close>\<close>
  "spread_permissions old given = \<lparr>
     canViewEvents = (case given_canViewEvents given of Some b \<Rightarrow> b | None \<Rightarrow> canViewEvents old),
     canViewAvailability =
       (case given_canViewAvailability given of Some b \<Rightarrow> b | None \<Rightarrow> canViewAvailability old),
     canViewStatus = (case given_canViewStatus given of Some b \<Rightarrow> b | None \<Rightarrow> canViewStatus old),
     canViewDetails = (case given_canViewDetails given of Some b \<Rightarrow> b | None \<Rightarrow> canViewDetails old)\<rparr>"

text \<open>
  \<open>obj.permissions = { ...obj.permissions, ...given }\<close> on the inherited object found
  under \<open>key\<close>. On \<open>Object.prototype\<close> itself (found under \<open>__proto__\<close>) the new
  object becomes what every plain object inherits under the name \<open>permissions\<close>; the
  spread copies into it the properties the service has assigned on the object that was
  there before.
\<close>

definition assign_permissions :: "string \<Rightarrow> inherited_object \<Rightarrow> inherited_objects \<Rightarrow> inherited_objects" where
  "assign_permissions key obj objs =
     (let objs' = objs(key \<mapsto> obj\<lparr>permissions_assigned := True\<rparr>)
      in if key = ''__proto__''
         then objs'(''permissions'' \<mapsto>
                (case objs ''permissions'' of Some old \<Rightarrow> old | None \<Rightarrow> untouched_object))
         else objs')"

definition updateShareLinkPermissions ::
  "string \<Rightarrow> partial_permissions \<Rightarrow> sharing_service \<Rightarrow> bool \<times> sharing_service" where
  "updateShareLinkPermissions shareId given s =
     (case shareLinks s shareId of
        Some l \<Rightarrow>
          (True, saveShareLinks (s\<lparr>shareLinks :=
             (shareLinks s)(shareId \<mapsto> l\<lparr>permissions := spread_permissions (permissions l) given\<rparr>)\<rparr>))
      | None \<Rightarrow>
          (case inherited s shareId of
             Some obj \<Rightarrow>
               (True, saveShareLinks (s\<lparr>inherited := assign_permissions shareId obj (inherited s)\<rparr>))
           | None \<Rightarrow> (False, s)))"

definition accessSharedSchedule ::
  "timestamp \<Rightarrow> string \<Rightarrow> sharing_service \<Rightarrow> share_link option \<times> sharing_service" where
  "accessSharedSchedule now shareId s =
     (case shareLinks s shareId of
        Some l \<Rightarrow>
          if isActive l then
            (let l' = l\<lparr>accessCount := accessCount l + 1, lastAccessed := Some now\<rparr>
             in (Some l', saveShareLinks (s\<lparr>shareLinks := (shareLinks s)(shareId \<mapsto> l')\<rparr>)))
          else (None, s)
      | None \<Rightarrow>
          (case inherited s shareId of
             Some obj \<Rightarrow> (None, s) \<comment> \<open>its \<open>isActive\<close> is \<open>false\<close> or undefined\<close>
           | None \<Rightarrow> (None, s)))"

definition getUserData ::
  "('e, 'v, 's) user_directory \<Rightarrow> inherited_objects \<Rightarrow> string \<Rightarrow> ('e, 'v, 's) found_user option" where
  \<comment> \<open>\<open>users[userId] || null\<close> on the parsed directory\<close>
  "getUserData users objs uid =
     (case users uid of
        Some u \<Rightarrow> Some (DirectoryUser u)
      | None \<Rightarrow> map_option InheritedUser (objs uid))"

text \<open>Reading a field of what \<open>getUserData\<close> found; \<open>None\<close> is undefined.\<close>

fun read_fullName :: "('e, 'v, 's) found_user \<Rightarrow> string option" where
  "read_fullName (DirectoryUser u) = Some (fullName u)"
| "read_fullName (InheritedUser obj) = None"

fun read_email :: "('e, 'v, 's) found_user \<Rightarrow> string option" where
  "read_email (DirectoryUser u) = Some (email u)"
| "read_email (InheritedUser obj) = None"

fun read_events :: "('e, 'v, 's) found_user \<Rightarrow> 'e list option" where
  "read_events (DirectoryUser u) = events u"
| "read_events (InheritedUser obj) = None"

fun read_availability :: "('e, 'v, 's) found_user \<Rightarrow> (string \<rightharpoonup> 'v) option" where
  "read_availability (DirectoryUser u) = availability u"
| "read_availability (InheritedUser obj) = None"

fun read_currentStatus :: "('e, 'v, 's) found_user \<Rightarrow> 's option" where
  "read_currentStatus (DirectoryUser u) = currentStatus u"
| "read_currentStatus (InheritedUser obj) = None"

definition expired :: "timestamp \<Rightarrow> share_link \<Rightarrow> bool" where
  \<comment> \<open>\<open>shareLink.expiresAt && new Date() > new Date(shareLink.expiresAt)\<close>\<close>
  "expired now l = (case expiresAt l of None \<Rightarrow> False | Some t \<Rightarrow> now > t)"

text \<open>
  \<open>getSharedScheduleData\<close> reads the clock twice: \<open>now\<close> inside
  \<open>accessSharedSchedule\<close>, \<open>now'\<close> in its own expiry check.
\<close>

definition getSharedScheduleData ::
  "timestamp \<Rightarrow> timestamp \<Rightarrow> ('e, 'v, 's) user_directory \<Rightarrow> string \<Rightarrow> sharing_service
     \<Rightarrow> ('e, 'v, 's) shared_data option \<times> sharing_service" where
  "getSharedScheduleData now now' users shareId s =
     (case accessSharedSchedule now shareId s of
        (None, s') \<Rightarrow> (None, s')
      | (Some shareLink, s') \<Rightarrow>
          if expired now' shareLink then (None, s')
          else
            (case getUserData users (inherited s') (userId shareLink) of
               None \<Rightarrow> (None, s')
             | Some userData \<Rightarrow>
                 (Some \<lparr>
                    user = \<lparr>
                      name = read_fullName userData,
                      shared_email =
                        (if canViewDetails (permissions shareLink) then read_email userData else None)\<rparr>,
                    shared_events =
                      (if canViewEvents (permissions shareLink)
                       then (case read_events userData of Some es \<Rightarrow> es | None \<Rightarrow> [])
                       else []),
                    shared_availability =
                      (if canViewAvailability (permissions shareLink)
                       then (case read_availability userData of Some a \<Rightarrow> a | None \<Rightarrow> Map.empty)
                       else Map.empty),
                    shared_currentStatus =
                      (if canViewStatus (permissions shareLink) then read_currentStatus userData else None),
                    shareInfo = \<lparr>
                      info_createdAt = createdAt shareLink,
                      info_accessCount = accessCount shareLink,
                      info_permissions = permissions shareLink\<rparr>\<rparr>,
                  s')))"

subsection \<open>Sequences of operations\<close>

text \<open>
  The methods of the service as commands, each with the surroundings it reads, and the
  state after a list of them.
\<close>

datatype ('e, 'v, 's) operation =
    GenerateShareLink string "nat \<Rightarrow> nat" timestamp string share_request
  | GetShareLink string
  | GetUserShareLinks string
  | RevokeShareLink string
  | UpdateShareLinkPermissions string partial_permissions
  | AccessSharedSchedule timestamp string
  | GetSharedScheduleData timestamp timestamp "('e, 'v, 's) user_directory" string

fun perform :: "('e, 'v, 's) operation \<Rightarrow> sharing_service \<Rightarrow> sharing_service" where
  "perform (GenerateShareLink origin rnd now uid perms) s =
     snd (generateShareLink origin rnd now uid perms s)"
| "perform (GetShareLink shareId) s = s"
| "perform (GetUserShareLinks uid) s = s"
| "perform (RevokeShareLink shareId) s = snd (revokeShareLink shareId s)"
| "perform (UpdateShareLinkPermissions shareId given) s =
     snd (updateShareLinkPermissions shareId given s)"
| "perform (AccessSharedSchedule now shareId) s = snd (accessSharedSchedule now shareId s)"
| "perform (GetSharedScheduleData now now' users shareId) s =
     snd (getSharedScheduleData now now' users shareId s)"

definition run :: "('e, 'v, 's) operation list \<Rightarrow> sharing_service \<Rightarrow> sharing_service" where
  "run ops s = fold perform ops s"

fun issues :: "string \<Rightarrow> ('e, 'v, 's) operation \<Rightarrow> bool" where
  "issues k (GenerateShareLink origin rnd now uid perms) = (generateShareId rnd = k)"
| "issues k _ = False"

subsection \<open>Example data\<close>

definition zero_draws :: "nat \<Rightarrow> nat" where
  \<comment> \<open>a random source whose every draw is index 0\<close>
  "zero_draws i = 0"

definition no_permissions_given :: share_request where
  "no_permissions_given = \<lparr>given_canViewEvents = None, given_canViewAvailability = None,
     given_canViewStatus = None, given_canViewDetails = None, given_expiresAt = None\<rparr>"

definition only_details :: partial_permissions where
  "only_details = \<lparr>given_canViewEvents = None, given_canViewAvailability = None,
     given_canViewStatus = None, given_canViewDetails = Some True\<rparr>"

text \<open>The user directory is keyed by e-mail address, as the authentication service keeps it.\<close>

definition demo_users :: "(string, string, string) user_directory" where
  "demo_users = [''demo@checkmate.com'' \<mapsto> \<lparr>fullName = ''Demo User'',
     email = ''demo@checkmate.com'', events = Some [''Standup'', ''Review'', ''Lunch''],
     availability = Some [''timezone'' \<mapsto> ''America/New_York''],
     currentStatus = Some ''Available''\<rparr>]"

text \<open>An active link whose expiry time 1000 has passed at time 2000.\<close>

definition expired_link :: share_link where
  "expired_link = \<lparr>id_link = ''AAAAAAAAAAAAAAAA'', userId = ''demo@checkmate.com'',
     link = ''http://localhost?shared=AAAAAAAAAAAAAAAA'',
     permissions = \<lparr>canViewEvents = True, canViewAvailability = True, canViewStatus = True,
       canViewDetails = False\<rparr>,
     createdAt = 0, expiresAt = Some 1000, isActive = True, accessCount = 0,
     lastAccessed = None\<rparr>"

definition expired_service :: sharing_service where
  "expired_service = \<lparr>shareLinks = [''AAAAAAAAAAAAAAAA'' \<mapsto> expired_link],
     storage = [''AAAAAAAAAAAAAAAA'' \<mapsto> expired_link],
     inherited = object_prototype\<rparr>"

text \<open>An active link whose \<open>userId\<close> is not a key of the user directory.\<close>

definition orphan_link :: share_link where
  "orphan_link = \<lparr>id_link = ''BBBBBBBBBBBBBBBB'', userId = ''user_1'',
     link = ''http://localhost?shared=BBBBBBBBBBBBBBBB'',
     permissions = \<lparr>canViewEvents = True, canViewAvailability = True, canViewStatus = True,
       canViewDetails = False\<rparr>,
     createdAt = 0, expiresAt = None, isActive = True, accessCount = 0,
     lastAccessed = None\<rparr>"

definition orphan_service :: sharing_service where
  "orphan_service = \<lparr>shareLinks = [''BBBBBBBBBBBBBBBB'' \<mapsto> orphan_link],
     storage = [''BBBBBBBBBBBBBBBB'' \<mapsto> orphan_link],
     inherited = object_prototype\<rparr>"

text \<open>Two active links of the demo user, one showing events, one hiding them.\<close>

definition visible_link :: share_link where
  "visible_link = \<lparr>id_link = ''CCCCCCCCCCCCCCCC'', userId = ''demo@checkmate.com'',
     link = ''http://localhost?shared=CCCCCCCCCCCCCCCC'',
     permissions = \<lparr>canViewEvents = True, canViewAvailability = True, canViewStatus = True,
       canViewDetails = False\<rparr>,
     createdAt = 0, expiresAt = None, isActive = True, accessCount = 0,
     lastAccessed = None\<rparr>"

definition hidden_link :: share_link where
  "hidden_link = \<lparr>id_link = ''DDDDDDDDDDDDDDDD'', userId = ''demo@checkmate.com'',
     link = ''http://localhost?shared=DDDDDDDDDDDDDDDD'',
     permissions = \<lparr>canViewEvents = False, canViewAvailability = True, canViewStatus = True,
       canViewDetails = True\<rparr>,
     createdAt = 0, expiresAt = None, isActive = True, accessCount = 4,
     lastAccessed = Some 50\<rparr>"

definition demo_service :: sharing_service where
  "demo_service = \<lparr>
     shareLinks = [''CCCCCCCCCCCCCCCC'' \<mapsto> visible_link, ''DDDDDDDDDDDDDDDD'' \<mapsto> hidden_link],
     storage = [''CCCCCCCCCCCCCCCC'' \<mapsto> visible_link, ''DDDDDDDDDDDDDDDD'' \<mapsto> hidden_link],
     inherited = object_prototype\<rparr>"

definition one_draws :: "nat \<Rightarrow> nat" where
  \<comment> \<open>a random source whose every draw is index 1\<close>
  "one_draws i = 1"

text \<open>Two links issued from the same draws, and a link issued again after its revocation.\<close>

definition collision_ops :: "(string, string, string) operation list" where
  "collision_ops =
     [GenerateShareLink ''http://localhost'' zero_draws 1 ''alice'' no_permissions_given,
      GenerateShareLink ''http://localhost'' zero_draws 2 ''bob'' no_permissions_given]"

definition reissue_ops :: "(string, string, string) operation list" where
  "reissue_ops =
     [GenerateShareLink ''http://localhost'' zero_draws 1 ''alice'' no_permissions_given,
      RevokeShareLink ''AAAAAAAAAAAAAAAA'',
      GenerateShareLink ''http://localhost'' zero_draws 2 ''alice'' no_permissions_given]"

text \<open>A revoked link, and operations applied to the service that holds it.\<close>

definition revoked_link :: share_link where
  "revoked_link = \<lparr>id_link = ''EEEEEEEEEEEEEEEE'', userId = ''demo@checkmate.com'',
     link = ''http://localhost?shared=EEEEEEEEEEEEEEEE'',
     permissions = \<lparr>canViewEvents = True, canViewAvailability = True, canViewStatus = True,
       canViewDetails = False\<rparr>,
     createdAt = 0, expiresAt = None, isActive = False, accessCount = 7,
     lastAccessed = Some 50\<rparr>"

definition revoked_service :: sharing_service where
  "revoked_service = \<lparr>shareLinks = [''EEEEEEEEEEEEEEEE'' \<mapsto> revoked_link],
     storage = [''EEEEEEEEEEEEEEEE'' \<mapsto> revoked_link],
     inherited = object_prototype\<rparr>"

definition after_revocation_ops :: "(string, string, string) operation list" where
  "after_revocation_ops =
     [UpdateShareLinkPermissions ''EEEEEEEEEEEEEEEE'' only_details,
      AccessSharedSchedule 60 ''EEEEEEEEEEEEEEEE'',
      GetSharedScheduleData 70 70 demo_users ''EEEEEEEEEEEEEEEE'',
      GenerateShareLink ''http://localhost'' zero_draws 80 ''demo@checkmate.com'' no_permissions_given,
      RevokeShareLink ''EEEEEEEEEEEEEEEE'',
      GetShareLink ''EEEEEEEEEEEEEEEE'',
      GetUserShareLinks ''demo@checkmate.com'']"



section \<open>Properties\<close>

subsection \<open>Auxiliary facts\<close>

lemma accessSharedSchedule_None_iff:
  "fst (accessSharedSchedule now shareId s) = None \<longleftrightarrow>
     (shareLinks s shareId = None \<or> (\<exists>l. shareLinks s shareId = Some l \<and> \<not> isActive l))"
  by (auto simp: accessSharedSchedule_def Let_def split: option.splits)

lemma accessSharedSchedule_None_state:
  "fst (accessSharedSchedule now shareId s) = None \<Longrightarrow>
   snd (accessSharedSchedule now shareId s) = s"
  by (auto simp: accessSharedSchedule_def Let_def split: option.splits if_splits)

lemma getSharedScheduleData_expired:
  "shareLinks s shareId = Some l \<Longrightarrow> expired now' l \<Longrightarrow>
   fst (getSharedScheduleData now now' users shareId s) = None"
  by (auto simp: getSharedScheduleData_def accessSharedSchedule_def Let_def expired_def
      split: option.splits prod.splits if_splits)

lemma getSharedScheduleData_Some:
  assumes "fst (getSharedScheduleData now now' users shareId s) = Some v"
    and "shareLinks s shareId = Some l"
  shows "isActive l \<and> \<not> expired now' l
    \<and> (\<exists>u. getUserData users (inherited s) (userId l) = Some u
          \<and> name (user v) = read_fullName u
          \<and> shared_email (user v) = (if canViewDetails (permissions l) then read_email u else None)
          \<and> shared_events v =
              (if canViewEvents (permissions l)
               then (case read_events u of Some es \<Rightarrow> es | None \<Rightarrow> []) else [])
          \<and> info_accessCount (shareInfo v) = accessCount l + 1)"
  using assms
  by (auto simp: getSharedScheduleData_def accessSharedSchedule_def Let_def expired_def
      saveShareLinks_def split: option.splits if_splits)

lemma getUserData_directory:
  "users uid = Some u \<Longrightarrow> getUserData users objs uid = Some (DirectoryUser u)"
  by (simp add: getUserData_def)

lemma generateShareId_zero_draws: "generateShareId zero_draws = ''AAAAAAAAAAAAAAAA''"
  by (simp add: generateShareId_def zero_draws_def charAt_def chars_def upt_rec)

text \<open>
  The loop of \<open>generateShareId\<close> appends one character per round: with every draw below
  the length of the alphabet the id has 16 characters, all of the alphabet.
\<close>

lemma fold_append_concat: "fold (\<lambda>i result. result @ f i) xs acc = acc @ concat (map f xs)"
  by (induction xs arbitrary: acc) simp_all

lemma generateShareId_format:
  assumes "\<forall>i<16. rnd i < 62"
  shows "length (generateShareId rnd) = 16 \<and> set (generateShareId rnd) \<subseteq> set chars"
proof -
  have len: "length chars = 62" by (simp add: chars_def)
  have eq: "generateShareId rnd = concat (map (\<lambda>i. charAt chars (rnd i)) [0..<16])"
    by (simp add: generateShareId_def fold_append_concat)
  have one: "\<And>i. i \<in> set [0..<16] \<Longrightarrow> charAt chars (rnd i) = [chars ! rnd i]"
    using assms len by (simp add: charAt_def)
  have m: "map (\<lambda>i. charAt chars (rnd i)) [0..<16] = map (\<lambda>i. [chars ! rnd i]) [0..<16]"
    using one by (intro map_cong) auto
  have eq': "generateShareId rnd = map (\<lambda>i. chars ! rnd i) [0..<16]"
    unfolding eq m by simp
  have "set (generateShareId rnd) \<subseteq> set chars"
    using assms len unfolding eq' by (auto simp: set_conv_nth)
  moreover have "length (generateShareId rnd) = 16" unfolding eq' by simp
  ultimately show ?thesis by simp
qed

lemma generateShareId_one_draws: "generateShareId one_draws = ''BBBBBBBBBBBBBBBB''"
  by (simp add: generateShareId_def one_draws_def charAt_def chars_def upt_rec)

lemma getSharedScheduleData_access_None:
  "fst (accessSharedSchedule now shareId s) = None \<Longrightarrow>
   getSharedScheduleData now now' users shareId s = (None, s)"
  by (auto simp: getSharedScheduleData_def accessSharedSchedule_def Let_def
      split: option.splits if_splits)

text \<open>
  Lookups that end on an inherited object: the entries of the registry are untouched,
  and \<open>accessSharedSchedule\<close> returns \<open>null\<close>. Once \<open>permissions\<close> has been assigned on
  \<open>Object.prototype\<close>, a lookup of \<open>permissions\<close> finds an object; the \<open>false\<close> left
  under \<open>isActive\<close> is found by no test.
\<close>

lemma revokeShareLink_inherited_registry:
  "shareLinks s shareId = None \<Longrightarrow> shareLinks (snd (revokeShareLink shareId s)) = shareLinks s"
  by (simp add: revokeShareLink_def saveShareLinks_def split: option.splits)

lemma updateShareLinkPermissions_inherited_registry:
  "shareLinks s shareId = None \<Longrightarrow>
   shareLinks (snd (updateShareLinkPermissions shareId given s)) = shareLinks s"
  by (simp add: updateShareLinkPermissions_def saveShareLinks_def split: option.splits)

lemma accessSharedSchedule_inherited:
  "shareLinks s shareId = None \<Longrightarrow> accessSharedSchedule now shareId s = (None, s)"
  by (simp add: accessSharedSchedule_def split: option.splits)

lemma permissions_on_prototype:
  "fst (revokeShareLink ''permissions'' new_service) = False
   \<and> fst (revokeShareLink ''permissions''
        (snd (updateShareLinkPermissions ''__proto__'' only_details new_service))) = True"
  by (simp add: revokeShareLink_def updateShareLinkPermissions_def assign_permissions_def Let_def
      saveShareLinks_def new_service_def object_prototype_def untouched_object_def)

lemma isActive_on_prototype:
  "fst (revokeShareLink ''__proto__'' new_service) = True
   \<and> fst (revokeShareLink ''isActive'' (snd (revokeShareLink ''__proto__'' new_service))) = False"
  by (simp add: revokeShareLink_def saveShareLinks_def new_service_def object_prototype_def
      untouched_object_def)

subsection \<open>Access and expiry\<close>

text \<open>
  Claim C1, as stated, fails: \<open>accessSharedSchedule\<close> does not look at \<open>expiresAt\<close>. At
  time 2000 it returns the active link whose expiry time 1000 has passed.
\<close>

theorem accessSharedSchedule_returns_expired_link:
  "shareLinks expired_service ''AAAAAAAAAAAAAAAA'' = Some expired_link
   \<and> isActive expired_link
   \<and> expiresAt expired_link = Some 1000
   \<and> fst (accessSharedSchedule 2000 ''AAAAAAAAAAAAAAAA'' expired_service) \<noteq> None"
  by (simp add: accessSharedSchedule_def expired_service_def expired_link_def Let_def)

text \<open>
  Claim C1, amended: \<open>accessSharedSchedule\<close> returns \<open>null\<close> exactly when the share id
  is not in the registry or the link's \<open>isActive\<close> is false, and then it leaves the
  service unchanged. Expiry is checked by \<open>getSharedScheduleData\<close>: for a link whose
  \<open>expiresAt\<close> is in the past it returns \<open>null\<close>, also when \<open>isActive\<close> is true.
\<close>

theorem accessSharedSchedule_fails_iff_missing_or_inactive:
  "(fst (accessSharedSchedule now shareId s) = None \<longleftrightarrow>
      (shareLinks s shareId = None \<or> (\<exists>l. shareLinks s shareId = Some l \<and> \<not> isActive l)))
   \<and> (fst (accessSharedSchedule now shareId s) = None \<longrightarrow>
        snd (accessSharedSchedule now shareId s) = s)
   \<and> (\<forall>l. shareLinks s shareId = Some l \<and> expired now' l \<longrightarrow>
        fst (getSharedScheduleData now now' users shareId s) = None)"
  using accessSharedSchedule_None_iff accessSharedSchedule_None_state
    getSharedScheduleData_expired by blast

theorem accessSharedSchedule_fails_iff_missing_or_inactive_witness:
  "shareLinks expired_service ''missing'' = None
   \<and> fst (accessSharedSchedule 2000 ''missing'' expired_service) = None
   \<and> snd (accessSharedSchedule 2000 ''missing'' expired_service) = expired_service
   \<and> shareLinks expired_service ''AAAAAAAAAAAAAAAA'' = Some expired_link
   \<and> expired 2001 expired_link
   \<and> fst (getSharedScheduleData 2000 2001 demo_users ''AAAAAAAAAAAAAAAA'' expired_service) = None"
proof -
  have a: "shareLinks expired_service ''missing'' = None"
    by (simp add: expired_service_def)
  have b: "shareLinks expired_service ''AAAAAAAAAAAAAAAA'' = Some expired_link
      \<and> expired 2001 expired_link"
    by (simp add: expired_service_def expired_link_def expired_def)
  note missing = accessSharedSchedule_fails_iff_missing_or_inactive
    [of 2000 "''missing''" expired_service 2001 demo_users]
  from missing [THEN conjunct1] a
  have 1: "fst (accessSharedSchedule 2000 ''missing'' expired_service) = None"
    by simp
  from missing [THEN conjunct2, THEN conjunct1, rule_format, OF 1]
  have 2: "snd (accessSharedSchedule 2000 ''missing'' expired_service) = expired_service" .
  from accessSharedSchedule_fails_iff_missing_or_inactive
    [of 2000 "''AAAAAAAAAAAAAAAA''" expired_service 2001 demo_users,
     THEN conjunct2, THEN conjunct2, rule_format, OF b]
  have 3: "fst (getSharedScheduleData 2000 2001 demo_users ''AAAAAAAAAAAAAAAA'' expired_service)
      = None" .
  from a b 1 2 3 show ?thesis by simp
qed

subsection \<open>The access counter\<close>

text \<open>
  Claim C2 at two inputs the service receives. \<open>getSharedScheduleData\<close> returns \<open>null\<close>
  for the expired link, and for the link whose owner is not in the user directory, yet
  \<open>accessSharedSchedule\<close> has already counted the access: \<open>accessCount\<close> goes from 0
  to 1 and \<open>lastAccessed\<close> is set.
\<close>

theorem getSharedScheduleData_counts_failed_access:
  "fst (getSharedScheduleData 2000 2000 demo_users ''AAAAAAAAAAAAAAAA'' expired_service) = None
   \<and> map_option accessCount (shareLinks expired_service ''AAAAAAAAAAAAAAAA'') = Some 0
   \<and> map_option accessCount
        (shareLinks (snd (getSharedScheduleData 2000 2000 demo_users ''AAAAAAAAAAAAAAAA'' expired_service))
           ''AAAAAAAAAAAAAAAA'') = Some 1
   \<and> map_option lastAccessed
        (shareLinks (snd (getSharedScheduleData 2000 2000 demo_users ''AAAAAAAAAAAAAAAA'' expired_service))
           ''AAAAAAAAAAAAAAAA'') = Some (Some 2000)
   \<and> fst (getSharedScheduleData 2000 2000 demo_users ''BBBBBBBBBBBBBBBB'' orphan_service) = None
   \<and> map_option accessCount (shareLinks orphan_service ''BBBBBBBBBBBBBBBB'') = Some 0
   \<and> map_option accessCount
        (shareLinks (snd (getSharedScheduleData 2000 2000 demo_users ''BBBBBBBBBBBBBBBB'' orphan_service))
           ''BBBBBBBBBBBBBBBB'') = Some 1"
  by (simp add: getSharedScheduleData_def accessSharedSchedule_def Let_def expired_def
      saveShareLinks_def getUserData_def demo_users_def object_prototype_def
      expired_service_def expired_link_def orphan_service_def orphan_link_def)

text \<open>
  What holds of the counter in general: a call that returns a view has counted once; a
  call on a missing or inactive link changes nothing; a call on an active link that is
  expired, or whose owner the lookup in the user directory does not find, returns
  \<open>null\<close> and has counted.
\<close>

lemma getSharedScheduleData_view_counts_once:
  assumes "fst (getSharedScheduleData now now' users shareId s) = Some v"
    and "shareLinks s shareId = Some l"
  shows "map_option accessCount (shareLinks (snd (getSharedScheduleData now now' users shareId s)) shareId)
      = Some (accessCount l + 1)"
  using assms
  by (auto simp: getSharedScheduleData_def accessSharedSchedule_def Let_def saveShareLinks_def
      split: option.splits if_splits)

lemma getSharedScheduleData_missing_or_inactive:
  assumes "shareLinks s shareId = None \<or> (\<exists>l. shareLinks s shareId = Some l \<and> \<not> isActive l)"
  shows "getSharedScheduleData now now' users shareId s = (None, s)"
  using assms accessSharedSchedule_None_iff [of now shareId s]
  by (simp add: getSharedScheduleData_access_None)

lemma getSharedScheduleData_null_but_counted:
  assumes "shareLinks s shareId = Some l" and "isActive l"
    and "expired now' l \<or> (users (userId l) = None \<and> inherited s (userId l) = None)"
  shows "fst (getSharedScheduleData now now' users shareId s) = None
    \<and> shareLinks (snd (getSharedScheduleData now now' users shareId s)) shareId
        = Some (l\<lparr>accessCount := accessCount l + 1, lastAccessed := Some now\<rparr>)"
  using assms
  by (auto simp: getSharedScheduleData_def accessSharedSchedule_def Let_def saveShareLinks_def
      expired_def getUserData_def split: option.splits if_splits)

subsection \<open>Issuing a link\<close>

text \<open>
  Claim C3: the link returned by \<open>generateShareLink\<close> is active, has \<open>accessCount\<close> 0
  and no \<open>lastAccessed\<close>, belongs to the given user, and has \<open>canViewEvents\<close>,
  \<open>canViewAvailability\<close> and \<open>canViewStatus\<close> true unless the request set them to
  false and \<open>canViewDetails\<close> true only if the request set it to true; it is stored
  under its id, in memory and in local storage.
\<close>

theorem generateShareLink_new_token:
  "isActive (fst (generateShareLink origin rnd now uid perms s))
   \<and> accessCount (fst (generateShareLink origin rnd now uid perms s)) = 0
   \<and> lastAccessed (fst (generateShareLink origin rnd now uid perms s)) = None
   \<and> userId (fst (generateShareLink origin rnd now uid perms s)) = uid
   \<and> canViewEvents (permissions (fst (generateShareLink origin rnd now uid perms s)))
       = (given_canViewEvents perms \<noteq> Some False)
   \<and> canViewAvailability (permissions (fst (generateShareLink origin rnd now uid perms s)))
       = (given_canViewAvailability perms \<noteq> Some False)
   \<and> canViewStatus (permissions (fst (generateShareLink origin rnd now uid perms s)))
       = (given_canViewStatus perms \<noteq> Some False)
   \<and> canViewDetails (permissions (fst (generateShareLink origin rnd now uid perms s)))
       = (given_canViewDetails perms = Some True)
   \<and> shareLinks (snd (generateShareLink origin rnd now uid perms s))
        (id_link (fst (generateShareLink origin rnd now uid perms s)))
       = Some (fst (generateShareLink origin rnd now uid perms s))
   \<and> storage (snd (generateShareLink origin rnd now uid perms s))
        (id_link (fst (generateShareLink origin rnd now uid perms s)))
       = Some (fst (generateShareLink origin rnd now uid perms s))"
  by (auto simp: generateShareLink_def Let_def saveShareLinks_def split: option.splits)

subsection \<open>Revoking a link\<close>




subsection \<open>Updating permissions\<close>






subsection \<open>The shared view\<close>




text \<open>
  Claim C7: whenever \<open>getSharedScheduleData\<close> returns a view for a link of an owner,
  the view's \<open>events\<close> are the owner's event list itself if \<open>canViewEvents\<close> is true
  (the empty list if the owner has no \<open>events\<close> entry), and the empty list if
  \<open>canViewEvents\<close> is false.
\<close>

theorem getSharedScheduleData_events_all_or_nothing:
  assumes "fst (getSharedScheduleData now now' users shareId s) = Some v"
    and "shareLinks s shareId = Some l"
    and "users (userId l) = Some u"
  shows "(canViewEvents (permissions l) \<longrightarrow>
            (\<forall>es. events u = Some es \<longrightarrow> shared_events v = es)
            \<and> (events u = None \<longrightarrow> shared_events v = []))
    \<and> (\<not> canViewEvents (permissions l) \<longrightarrow> shared_events v = [])"
  using getSharedScheduleData_Some [OF assms(1,2)]
    getUserData_directory [of users "userId l" u "inherited s"] assms(3)
  by auto

theorem getSharedScheduleData_events_all_or_nothing_witness:
  "fst (getSharedScheduleData 100 101 demo_users ''CCCCCCCCCCCCCCCC'' demo_service) \<noteq> None
   \<and> shareLinks demo_service ''CCCCCCCCCCCCCCCC'' = Some visible_link
   \<and> canViewEvents (permissions visible_link)
   \<and> shared_events (the (fst (getSharedScheduleData 100 101 demo_users ''CCCCCCCCCCCCCCCC''
        demo_service))) = [''Standup'', ''Review'', ''Lunch'']
   \<and> fst (getSharedScheduleData 100 101 demo_users ''DDDDDDDDDDDDDDDD'' demo_service) \<noteq> None
   \<and> shareLinks demo_service ''DDDDDDDDDDDDDDDD'' = Some hidden_link
   \<and> \<not> canViewEvents (permissions hidden_link)
   \<and> shared_events (the (fst (getSharedScheduleData 100 101 demo_users ''DDDDDDDDDDDDDDDD''
        demo_service))) = []"
proof -
  let ?u = "\<lparr>fullName = ''Demo User'',
     email = ''demo@checkmate.com'', events = Some [''Standup'', ''Review'', ''Lunch''],
     availability = Some [''timezone'' \<mapsto> ''America/New_York''],
     currentStatus = Some ''Available''\<rparr> :: (string, string, string) user_data"
  let ?r = "fst (getSharedScheduleData 100 101 demo_users ''CCCCCCCCCCCCCCCC'' demo_service)"
  let ?q = "fst (getSharedScheduleData 100 101 demo_users ''DDDDDDDDDDDDDDDD'' demo_service)"
  have ne: "?r \<noteq> None"
    by (simp add: getSharedScheduleData_def accessSharedSchedule_def Let_def expired_def
        getUserData_def demo_users_def demo_service_def visible_link_def)
  then have a: "?r = Some (the ?r)"
    by simp
  have ne': "?q \<noteq> None"
    by (simp add: getSharedScheduleData_def accessSharedSchedule_def Let_def expired_def
        getUserData_def demo_users_def demo_service_def hidden_link_def)
  then have a': "?q = Some (the ?q)"
    by simp
  have b: "shareLinks demo_service ''CCCCCCCCCCCCCCCC'' = Some visible_link"
    by (simp add: demo_service_def)
  have b': "shareLinks demo_service ''DDDDDDDDDDDDDDDD'' = Some hidden_link"
    by (simp add: demo_service_def)
  have c: "canViewEvents (permissions visible_link)"
    by (simp add: visible_link_def)
  have c': "\<not> canViewEvents (permissions hidden_link)"
    by (simp add: hidden_link_def)
  have d: "demo_users (userId visible_link) = Some ?u"
    by (simp add: demo_users_def visible_link_def)
  have d': "demo_users (userId hidden_link) = Some ?u"
    by (simp add: demo_users_def hidden_link_def)
  have e: "events ?u = Some [''Standup'', ''Review'', ''Lunch'']"
    by simp
  from getSharedScheduleData_events_all_or_nothing
    [OF a b d, THEN conjunct1, rule_format, OF c, THEN conjunct1, rule_format, OF e]
  have 1: "shared_events (the ?r) = [''Standup'', ''Review'', ''Lunch'']" .
  from getSharedScheduleData_events_all_or_nothing
    [OF a' b' d', THEN conjunct2, rule_format, OF c']
  have 2: "shared_events (the ?q) = []" .
  from ne ne' b b' c c' 1 2 show ?thesis by simp
qed

subsection \<open>The effect of a successful access\<close>

text \<open>
  Claim C10: when \<open>accessSharedSchedule\<close> returns a link, that link is the stored one
  with \<open>accessCount\<close> increased by 1 and \<open>lastAccessed\<close> set to the time of the call;
  its id, owner, URL, permissions, \<open>createdAt\<close>, \<open>expiresAt\<close> and \<open>isActive\<close> are as
  before, it is stored under the same id, and every other link is unchanged.
\<close>

theorem accessSharedSchedule_changes_only_counters:
  assumes "fst (accessSharedSchedule now shareId s) = Some l'"
  shows "\<exists>l. shareLinks s shareId = Some l
    \<and> accessCount l' = accessCount l + 1 \<and> lastAccessed l' = Some now
    \<and> id_link l' = id_link l \<and> userId l' = userId l \<and> link l' = link l
    \<and> permissions l' = permissions l \<and> createdAt l' = createdAt l
    \<and> expiresAt l' = expiresAt l \<and> isActive l' = isActive l
    \<and> shareLinks (snd (accessSharedSchedule now shareId s)) shareId = Some l'
    \<and> (\<forall>k. k \<noteq> shareId \<longrightarrow>
          shareLinks (snd (accessSharedSchedule now shareId s)) k = shareLinks s k)"
  using assms
  by (auto simp: accessSharedSchedule_def Let_def saveShareLinks_def split: option.splits if_splits)

theorem accessSharedSchedule_changes_only_counters_witness:
  "fst (accessSharedSchedule 100 ''DDDDDDDDDDDDDDDD'' demo_service) \<noteq> None
   \<and> accessCount (the (fst (accessSharedSchedule 100 ''DDDDDDDDDDDDDDDD'' demo_service))) = 5
   \<and> lastAccessed (the (fst (accessSharedSchedule 100 ''DDDDDDDDDDDDDDDD'' demo_service)))
       = Some 100
   \<and> permissions (the (fst (accessSharedSchedule 100 ''DDDDDDDDDDDDDDDD'' demo_service)))
       = permissions hidden_link
   \<and> shareLinks (snd (accessSharedSchedule 100 ''DDDDDDDDDDDDDDDD'' demo_service))
        ''CCCCCCCCCCCCCCCC'' = Some visible_link"
proof -
  let ?r = "fst (accessSharedSchedule 100 ''DDDDDDDDDDDDDDDD'' demo_service)"
  have ne: "?r \<noteq> None"
    by (simp add: accessSharedSchedule_def Let_def demo_service_def hidden_link_def)
  then have a: "?r = Some (the ?r)"
    by simp
  have b: "shareLinks demo_service ''DDDDDDDDDDDDDDDD'' = Some hidden_link"
    by (simp add: demo_service_def)
  have c: "shareLinks demo_service ''CCCCCCCCCCCCCCCC'' = Some visible_link"
    by (simp add: demo_service_def)
  have n: "accessCount hidden_link = 4"
    by (simp add: hidden_link_def)
  from accessSharedSchedule_changes_only_counters [OF a] b
  have t: "accessCount (the ?r) = accessCount hidden_link + 1 \<and> lastAccessed (the ?r) = Some 100
    \<and> permissions (the ?r) = permissions hidden_link
    \<and> (\<forall>k. k \<noteq> ''DDDDDDDDDDDDDDDD'' \<longrightarrow>
          shareLinks (snd (accessSharedSchedule 100 ''DDDDDDDDDDDDDDDD'' demo_service)) k
            = shareLinks demo_service k)"
    by auto
  from t have o: "shareLinks (snd (accessSharedSchedule 100 ''DDDDDDDDDDDDDDDD'' demo_service))
        ''CCCCCCCCCCCCCCCC'' = shareLinks demo_service ''CCCCCCCCCCCCCCCC''"
    by simp
  from ne t n o c show ?thesis by simp
qed

subsection \<open>Uniqueness of share ids\<close>

lemma perform_ids:
  assumes "\<forall>k l. shareLinks s k = Some l \<longrightarrow> id_link l = k"
  shows "\<forall>k l. shareLinks (perform op s) k = Some l \<longrightarrow> id_link l = k"
proof (cases op)
  case (GenerateShareLink origin rnd now uid perms)
  then show ?thesis using assms
    by (auto simp: generateShareLink_def Let_def saveShareLinks_def split: if_splits)
next
  case (RevokeShareLink shareId)
  then show ?thesis using assms
    by (auto simp: revokeShareLink_def saveShareLinks_def split: option.splits if_splits)
next
  case (UpdateShareLinkPermissions shareId given)
  then show ?thesis using assms
    by (auto simp: updateShareLinkPermissions_def saveShareLinks_def
        split: option.splits if_splits)
next
  case (AccessSharedSchedule now shareId)
  then show ?thesis using assms
    by (auto simp: accessSharedSchedule_def Let_def saveShareLinks_def
        split: option.splits if_splits)
next
  case (GetSharedScheduleData now now' users shareId)
  then show ?thesis using assms
    by (auto simp: getSharedScheduleData_def accessSharedSchedule_def Let_def saveShareLinks_def
        split: option.splits if_splits prod.splits)
qed (use assms in simp_all)

lemma run_ids:
  "\<forall>k l. shareLinks s k = Some l \<longrightarrow> id_link l = k \<Longrightarrow>
   \<forall>k l. shareLinks (run ops s) k = Some l \<longrightarrow> id_link l = k"
proof (induction ops arbitrary: s)
  case Nil
  then show ?case by (simp add: run_def)
next
  case (Cons op ops)
  from Cons.IH [OF perform_ids [OF Cons.prems, of op]]
  show ?case by (simp add: run_def)
qed

lemma generateShareLink_others:
  "k \<noteq> generateShareId rnd \<Longrightarrow>
   shareLinks (snd (generateShareLink origin rnd now uid perms s)) k = shareLinks s k"
  by (simp add: generateShareLink_def Let_def saveShareLinks_def)

text \<open>
  Claim C8, as stated, fails: \<open>generateShareLink\<close> does not consult the registry and
  never retries. Two calls whose draws are the same produce the same id, and the second
  link replaces the first: the link of alice stored under the id is afterwards the link
  of bob.
\<close>

theorem generateShareLink_collision_overwrites:
  "generateShareId zero_draws = ''AAAAAAAAAAAAAAAA''
   \<and> map_option userId (shareLinks (run (take 1 collision_ops) new_service) ''AAAAAAAAAAAAAAAA'')
       = Some ''alice''
   \<and> map_option userId (shareLinks (run collision_ops new_service) ''AAAAAAAAAAAAAAAA'')
       = Some ''bob''"
  by (simp add: generateShareId_zero_draws collision_ops_def run_def generateShareLink_def
      Let_def saveShareLinks_def new_service_def)

text \<open>
  Claim C8, amended: \<open>generateShareLink\<close> draws an id without consulting the registry
  and without retrying. In every state reached from the empty registry by the
  operations of the service each link is stored under its own id, so no two entries
  share an id; and when the id drawn for a new link is not yet in the registry, every
  link already stored is still stored, unchanged, after the call.
\<close>

theorem share_ids_unique_without_retry:
  "(\<forall>k l. shareLinks (run ops new_service) k = Some l \<longrightarrow> id_link l = k)
   \<and> (\<forall>k k' l l'. shareLinks (run ops new_service) k = Some l
         \<and> shareLinks (run ops new_service) k' = Some l' \<and> id_link l = id_link l' \<longrightarrow> k = k')
   \<and> (shareLinks (run ops new_service) (generateShareId rnd) = None \<longrightarrow>
        (\<forall>k l. shareLinks (run ops new_service) k = Some l \<longrightarrow>
           shareLinks (snd (generateShareLink origin rnd now uid perms (run ops new_service))) k
             = Some l))"
proof -
  have init: "\<forall>k l. shareLinks new_service k = Some l \<longrightarrow> id_link l = k"
    by (simp add: new_service_def)
  have ids: "\<forall>k l. shareLinks (run ops new_service) k = Some l \<longrightarrow> id_link l = k"
    by (rule run_ids [OF init])
  have uniq: "\<forall>k k' l l'. shareLinks (run ops new_service) k = Some l
         \<and> shareLinks (run ops new_service) k' = Some l' \<and> id_link l = id_link l' \<longrightarrow> k = k'"
    using ids by metis
  have fresh: "shareLinks (run ops new_service) (generateShareId rnd) = None \<longrightarrow>
        (\<forall>k l. shareLinks (run ops new_service) k = Some l \<longrightarrow>
           shareLinks (snd (generateShareLink origin rnd now uid perms (run ops new_service))) k
             = Some l)"
    using generateShareLink_others [of _ rnd origin now uid perms "run ops new_service"]
    by (metis option.distinct(1))
  from ids uniq fresh show ?thesis by blast
qed

theorem share_ids_unique_without_retry_witness:
  "shareLinks (run (take 1 collision_ops) new_service) ''AAAAAAAAAAAAAAAA'' \<noteq> None
   \<and> id_link (the (shareLinks (run (take 1 collision_ops) new_service) ''AAAAAAAAAAAAAAAA''))
       = ''AAAAAAAAAAAAAAAA''
   \<and> shareLinks (run (take 1 collision_ops) new_service) (generateShareId one_draws) = None
   \<and> shareLinks (snd (generateShareLink ''http://localhost'' one_draws 2 ''bob''
          no_permissions_given (run (take 1 collision_ops) new_service))) ''AAAAAAAAAAAAAAAA''
       = shareLinks (run (take 1 collision_ops) new_service) ''AAAAAAAAAAAAAAAA''"
proof -
  let ?s = "run (take 1 collision_ops) new_service"
  have ne: "shareLinks ?s ''AAAAAAAAAAAAAAAA'' \<noteq> None"
    by (simp add: generateShareId_zero_draws collision_ops_def run_def generateShareLink_def
        Let_def saveShareLinks_def new_service_def)
  then have a: "shareLinks ?s ''AAAAAAAAAAAAAAAA''
      = Some (the (shareLinks ?s ''AAAAAAAAAAAAAAAA''))"
    by simp
  have b: "shareLinks ?s (generateShareId one_draws) = None"
    by (simp add: generateShareId_zero_draws generateShareId_one_draws collision_ops_def run_def
        generateShareLink_def Let_def saveShareLinks_def new_service_def)
  note t = share_ids_unique_without_retry
    [of "take 1 collision_ops" one_draws "''http://localhost''" 2 "''bob''" no_permissions_given]
  from t [THEN conjunct1, rule_format, OF a]
  have 1: "id_link (the (shareLinks ?s ''AAAAAAAAAAAAAAAA'')) = ''AAAAAAAAAAAAAAAA''" .
  from t [THEN conjunct2, THEN conjunct2, rule_format, OF b a]
  have 2: "shareLinks (snd (generateShareLink ''http://localhost'' one_draws 2 ''bob''
          no_permissions_given ?s)) ''AAAAAAAAAAAAAAAA''
       = Some (the (shareLinks ?s ''AAAAAAAAAAAAAAAA''))" .
  from ne b 1 2 a show ?thesis by simp
qed

subsection \<open>Revocation\<close>

lemma perform_keeps_revoked:
  assumes "shareLinks s shareId = Some l" and "\<not> isActive l" and "\<not> issues shareId op"
  shows "\<exists>l'. shareLinks (perform op s) shareId = Some l' \<and> \<not> isActive l'
    \<and> accessCount l' = accessCount l"
proof (cases op)
  case (GenerateShareLink origin rnd now uid perms)
  then show ?thesis using assms
    by (auto simp: generateShareLink_def Let_def saveShareLinks_def)
next
  case (RevokeShareLink k)
  then show ?thesis using assms
    by (auto simp: revokeShareLink_def saveShareLinks_def split: option.splits)
next
  case (UpdateShareLinkPermissions k given)
  then show ?thesis using assms
    by (auto simp: updateShareLinkPermissions_def saveShareLinks_def split: option.splits)
next
  case (AccessSharedSchedule now k)
  then show ?thesis using assms
    by (auto simp: accessSharedSchedule_def Let_def saveShareLinks_def split: option.splits)
next
  case (GetSharedScheduleData now now' users k)
  then show ?thesis using assms
    by (auto simp: getSharedScheduleData_def accessSharedSchedule_def Let_def saveShareLinks_def
        split: option.splits prod.splits)
qed (use assms in simp_all)

lemma run_keeps_revoked:
  assumes "shareLinks s shareId = Some l" and "\<not> isActive l"
    and "\<forall>op\<in>set ops. \<not> issues shareId op"
  shows "\<exists>l'. shareLinks (run ops s) shareId = Some l' \<and> \<not> isActive l'
    \<and> accessCount l' = accessCount l"
  using assms
proof (induction ops arbitrary: s l)
  case Nil
  then show ?case by (simp add: run_def)
next
  case (Cons op ops)
  from Cons.prems have "\<not> issues shareId op" by simp
  from perform_keeps_revoked [OF Cons.prems(1,2) this]
  obtain l1 where l1: "shareLinks (perform op s) shareId = Some l1" "\<not> isActive l1"
    "accessCount l1 = accessCount l"
    by blast
  from Cons.prems have rest: "\<forall>op\<in>set ops. \<not> issues shareId op" by simp
  from Cons.IH [OF l1(1,2) rest] l1(3)
  show ?case by (simp add: run_def)
qed

text \<open>
  Claim C9, as stated, fails for \<open>generateShareLink\<close>: when it draws the id of a revoked
  link again, the entry under that id is active again and an access with the id
  succeeds.
\<close>

theorem revoked_id_reissued_is_active:
  "generateShareId zero_draws = ''AAAAAAAAAAAAAAAA''
   \<and> map_option isActive (shareLinks (run (take 2 reissue_ops) new_service) ''AAAAAAAAAAAAAAAA'')
       = Some False
   \<and> map_option isActive (shareLinks (run reissue_ops new_service) ''AAAAAAAAAAAAAAAA'')
       = Some True
   \<and> fst (accessSharedSchedule 3 ''AAAAAAAAAAAAAAAA'' (run reissue_ops new_service)) \<noteq> None"
  by (simp add: generateShareId_zero_draws reissue_ops_def run_def generateShareLink_def
      revokeShareLink_def accessSharedSchedule_def Let_def saveShareLinks_def new_service_def)

text \<open>
  Claim C9, amended: once a link's \<open>isActive\<close> is false, it stays false and the link's
  \<open>accessCount\<close> stays the same through every sequence of operations of the service in
  which no \<open>generateShareLink\<close> draws that link's id again; after such a sequence
  \<open>accessSharedSchedule\<close> and \<open>getSharedScheduleData\<close> on the link return \<open>null\<close> and
  change nothing.
\<close>

theorem revocation_terminal_unless_id_reissued:
  assumes "shareLinks s shareId = Some l" and "\<not> isActive l"
    and "\<forall>op\<in>set ops. \<not> issues shareId op"
  shows "(\<exists>l'. shareLinks (run ops s) shareId = Some l' \<and> \<not> isActive l'
            \<and> accessCount l' = accessCount l)
    \<and> accessSharedSchedule now shareId (run ops s) = (None, run ops s)
    \<and> getSharedScheduleData now now' users shareId (run ops s) = (None, run ops s)"
proof -
  from run_keeps_revoked [OF assms]
  obtain l' where l': "shareLinks (run ops s) shareId = Some l'" "\<not> isActive l'"
    "accessCount l' = accessCount l"
    by blast
  then have a: "accessSharedSchedule now shareId (run ops s) = (None, run ops s)"
    by (simp add: accessSharedSchedule_def)
  then have "getSharedScheduleData now now' users shareId (run ops s) = (None, run ops s)"
    by (simp add: getSharedScheduleData_access_None)
  with l' a show ?thesis by blast
qed

theorem revocation_terminal_unless_id_reissued_witness:
  "shareLinks revoked_service ''EEEEEEEEEEEEEEEE'' = Some revoked_link
   \<and> \<not> isActive revoked_link
   \<and> \<not> list_ex (issues ''EEEEEEEEEEEEEEEE'') after_revocation_ops
   \<and> (\<exists>l'. shareLinks (run after_revocation_ops revoked_service) ''EEEEEEEEEEEEEEEE'' = Some l'
          \<and> \<not> isActive l' \<and> accessCount l' = 7)
   \<and> accessSharedSchedule 90 ''EEEEEEEEEEEEEEEE'' (run after_revocation_ops revoked_service)
       = (None, run after_revocation_ops revoked_service)
   \<and> getSharedScheduleData 90 91 demo_users ''EEEEEEEEEEEEEEEE''
        (run after_revocation_ops revoked_service)
       = (None, run after_revocation_ops revoked_service)"
proof -
  have a: "shareLinks revoked_service ''EEEEEEEEEEEEEEEE'' = Some revoked_link"
    by (simp add: revoked_service_def)
  have b: "\<not> isActive revoked_link"
    by (simp add: revoked_link_def)
  have c: "\<forall>op\<in>set after_revocation_ops. \<not> issues ''EEEEEEEEEEEEEEEE'' op"
    by (simp add: after_revocation_ops_def generateShareId_zero_draws)
  have n: "accessCount revoked_link = 7"
    by (simp add: revoked_link_def)
  have c': "\<not> list_ex (issues ''EEEEEEEEEEEEEEEE'') after_revocation_ops"
    by (simp add: after_revocation_ops_def generateShareId_zero_draws)
  from revocation_terminal_unless_id_reissued [OF a b c, of 90 91 demo_users] a b c' n
  show ?thesis by simp
qed

end
